theory Spec2Isabelle
  imports Complex_Main
begin

section \<open>JavaScript primitives used by the dashboard\<close>

text \<open>
  The model follows \<^verbatim>\<open>src/static/js/real-time-dashboard.js\<close>. JavaScript numbers are
  modelled as exact numbers: counts and rounded values as \<open>int\<close>, times and quotients as
  \<open>real\<close>. \<open>NaN\<close> is \<open>None\<close> where a source expression can produce it.
\<close>

text \<open>\<^verbatim>\<open>Math.round\<close>: the nearest integer, a tie going up.\<close>

definition js_round :: "real \<Rightarrow> int" where
  "js_round x = \<lfloor>x + 1 / 2\<rfloor>"

text \<open>The decimal text of an integer-valued number, as string concatenation produces it.\<close>

fun digits10 :: "nat \<Rightarrow> string" where
  "digits10 n =
     (if n < 10 then [char_of (48 + n)]
      else digits10 (n div 10) @ [char_of (48 + n mod 10)])"

declare digits10.simps [simp del]

definition number_to_string :: "int \<Rightarrow> string" where
  "number_to_string i =
     (if i < 0 then CHR ''-'' # digits10 (nat (- i)) else digits10 (nat i))"

text \<open>The same for a number that may be \<open>NaN\<close>.\<close>

definition number_text :: "int option \<Rightarrow> string" where
  "number_text x = (case x of None \<Rightarrow> ''NaN'' | Some i \<Rightarrow> number_to_string i)"

text \<open>
  \<^verbatim>\<open>parseInt(string)\<close> without a radix: leading white space is skipped, then an optional
  sign, then an optional \<^verbatim>\<open>0x\<close> prefix, then the longest run of digits of the radix; no
  digit at all gives \<open>NaN\<close>. White space is the ASCII part of the language's list.
\<close>

definition is_white_space :: "char \<Rightarrow> bool" where
  "is_white_space c =
     (c \<in> set [CHR '' '', CHR 0x09, CHR 0x0A, CHR 0x0B, CHR 0x0C, CHR 0x0D])"

definition digit_value :: "char \<Rightarrow> nat option" where
  "digit_value c =
     (let n = (of_char c :: nat) in
      if 48 \<le> n \<and> n \<le> 57 then Some (n - 48)
      else if 97 \<le> n \<and> n \<le> 122 then Some (n - 87)
      else if 65 \<le> n \<and> n \<le> 90 then Some (n - 55)
      else None)"

definition radix_digit :: "nat \<Rightarrow> char \<Rightarrow> bool" where
  "radix_digit r c = (case digit_value c of Some d \<Rightarrow> d < r | None \<Rightarrow> False)"

definition digits_value :: "nat \<Rightarrow> string \<Rightarrow> nat" where
  "digits_value r ds =
     foldl (\<lambda>acc c. case digit_value c of Some d \<Rightarrow> acc * r + d | None \<Rightarrow> acc) 0 ds"

definition parseInt :: "string \<Rightarrow> int option" where
  "parseInt str =
     (let s1 = dropWhile is_white_space str;
          neg = (case s1 of c # _ \<Rightarrow> c = CHR ''-'' | [] \<Rightarrow> False);
          s2 = (case s1 of c # r \<Rightarrow> if c = CHR ''+'' \<or> c = CHR ''-'' then r else s1
                | [] \<Rightarrow> s1);
          hex = (case s2 of a # b # _ \<Rightarrow> a = CHR ''0'' \<and> (b = CHR ''x'' \<or> b = CHR ''X'')
                 | _ \<Rightarrow> False);
          radix = (if hex then 16 else 10);
          s3 = (if hex then drop 2 s2 else s2);
          z = takeWhile (radix_digit radix) s3
      in if z = [] then None
         else Some ((if neg then - 1 else 1) * int (digits_value radix z)))"

text \<open>\<^verbatim>\<open>x || 0\<close> on a number: \<open>NaN\<close> and zero give 0.\<close>

definition or_zero :: "int option \<Rightarrow> int" where
  "or_zero x = (case x of None \<Rightarrow> 0 | Some v \<Rightarrow> v)"

text \<open>\<^verbatim>\<open>String.prototype.toLowerCase\<close> on the ASCII letters.\<close>

definition toLowerCase :: "string \<Rightarrow> string" where
  "toLowerCase str =
     map (\<lambda>c. let n = (of_char c :: nat) in
               if 65 \<le> n \<and> n \<le> 90 then char_of (n + 32) else c) str"

section \<open>Data model\<close>

subsection \<open>Payloads of the five endpoints\<close>

record vehicle =
  status :: string

record weather =
  condition :: string
  temperature :: real
  humidity :: real
  visibility :: real

record traffic =
  level :: string
  delay_minutes :: real
  traffic_timestamp :: string

record alert =
  urgency :: string
  message :: string

text \<open>\<open>alerts = None\<close> is a payload without the \<^verbatim>\<open>alerts\<close> field.\<close>

record maintenance =
  alerts :: "alert list option"

record track =
  employee_id :: string
  vehicle_number :: string
  trip_status :: string
  track_timestamp :: string

datatype fetch_error = NetworkError | MalformedBody

subsection \<open>What the page shows\<close>

text \<open>
  The HTML written into a region is kept as the template that was used together with
  the values interpolated into it; the fixed markup around them and the locale's
  rendering of times are left out.
\<close>

datatype tracking_item = TrackingItem string string string string string

datatype markup =
    WeatherCard string real real real
  | TrafficCard string string int string
  | AlertsSummary nat nat
  | TrackingItems "tracking_item list"

datatype display = DisplayDefault | DisplayNone | DisplayBlock | DisplayInlineFlex

datatype severity = Info | Success | Warning | Error

record notification =
  toast_message :: string
  toast_type :: severity
  toast_duration :: int

datatype permission = Default | Granted | Denied

record trend_chart =
  labels :: "string list"
  data :: "real list"

text \<open>One run of \<^verbatim>\<open>animateCounter\<close> that still has a frame callback registered.\<close>

record animation =
  anim_element :: string
  startValue :: int
  targetValue :: "int option"
  anim_suffix :: string
  startTime :: real

text \<open>The methods whose execution the properties speak about.\<close>

datatype call =
    FetchRealTimeData
  | UpdateVehicleStats
  | UpdateWeatherInfo
  | UpdateTrafficInfo
  | UpdateMaintenanceAlerts
  | UpdateLiveTracking
  | UpdateCharts

subsection \<open>The controller and the page it runs in\<close>

text \<open>
  The first group of fields is the object's own state. \<open>updateTimer = None\<close> stands for
  \<^verbatim>\<open>undefined\<close> and \<^verbatim>\<open>null\<close>, which the code never tells apart. The second group is
  the browser: the interval timers that are scheduled (identifier and delay), the
  elements that have an id with their text, the regions whose HTML was written, the
  frame callbacks waiting for the next animation frame, the toasts created so far.
  \<open>calls\<close> records which of the methods above were entered, oldest first.
\<close>

record dashboard =
  updateInterval :: "int option"
  isLiveMode :: bool
  updateTimer :: "nat option"
  carbonTrend :: "trend_chart option"
  fuelConsumption :: "real list option"
  efficiency :: "real list option"
  timers :: "(nat \<times> int option) list"
  timerCount :: nat
  elements :: "string \<rightharpoonup> string"
  regions :: "string \<rightharpoonup> markup"
  loadingIndicators :: "display list"
  liveIndicator :: "(display \<times> string) option"
  rafQueue :: "animation list"
  toasts :: "notification list"
  notificationPermission :: permission
  nativeAlerts :: "string list"
  calls :: "call list"

text \<open>
  What the environment supplies to one execution of \<^verbatim>\<open>fetchRealTimeData\<close>: the outcome
  of each of the five requests (\<open>Inl\<close> a rejection), the reading of
  \<^verbatim>\<open>performance.now()\<close>, the text of \<^verbatim>\<open>new Date().toLocaleTimeString()\<close>, and the
  results of the successive calls of \<^verbatim>\<open>Math.random()\<close>.
\<close>

record tick_env =
  vehicleFetch :: "fetch_error + vehicle list"
  weatherFetch :: "fetch_error + weather"
  trafficFetch :: "fetch_error + traffic"
  maintenanceFetch :: "fetch_error + maintenance"
  trackingFetch :: "fetch_error + track list"
  perfNow :: real
  clockLabel :: string
  random :: "nat \<Rightarrow> real"

section \<open>Notifications and loading indicators\<close>

definition enter :: "call \<Rightarrow> dashboard \<Rightarrow> dashboard" where
  "enter c s = s\<lparr>calls := calls s @ [c]\<rparr>"

text \<open>
  \<^verbatim>\<open>showNotification(message, type = 'info', duration = 5000)\<close>. The removal of the toast
  after \<open>duration\<close> is not modelled: \<open>toasts\<close> lists every toast that was created.
\<close>

definition showNotification :: "string \<Rightarrow> severity \<Rightarrow> int \<Rightarrow> dashboard \<Rightarrow> dashboard" where
  "showNotification msg ty duration s =
     (let s1 = s\<lparr>toasts := toasts s @
                 [\<lparr>toast_message = msg, toast_type = ty, toast_duration = duration\<rparr>]\<rparr>
      in if ty = Error \<and> notificationPermission s1 = Granted
         then s1\<lparr>nativeAlerts := nativeAlerts s1 @ [msg]\<rparr>
         else s1)"

definition showLoadingIndicators :: "dashboard \<Rightarrow> dashboard" where
  "showLoadingIndicators s =
     s\<lparr>loadingIndicators := map (\<lambda>_. DisplayBlock) (loadingIndicators s)\<rparr>"

definition hideLoadingIndicators :: "dashboard \<Rightarrow> dashboard" where
  "hideLoadingIndicators s =
     s\<lparr>loadingIndicators := map (\<lambda>_. DisplayNone) (loadingIndicators s)\<rparr>"

definition updateLastRefreshTime :: "string \<Rightarrow> dashboard \<Rightarrow> dashboard" where
  "updateLastRefreshTime label s =
     (case elements s ''lastRefreshTime'' of
        None \<Rightarrow> s
      | Some _ \<Rightarrow> s\<lparr>elements := (elements s)(''lastRefreshTime'' \<mapsto> ''Last updated: '' @ label)\<rparr>)"

section \<open>Animated counters\<close>

text \<open>
  \<^verbatim>\<open>animateCounter(elementId, targetValue, suffix)\<close> reads the start value and the clock
  and registers the frame callback; \<open>animate\<close> is that callback, run by the browser with
  the frame's time stamp; \<open>animationFrame\<close> is one animation frame, which runs every
  registered callback once, in the order of registration, a callback registered during
  the frame waiting for the next one. The target is a number or \<open>NaN\<close> (\<open>None\<close>), and
  with it the value that a frame displays.
\<close>

definition animateCounter ::
  "real \<Rightarrow> string \<Rightarrow> int option \<Rightarrow> string \<Rightarrow> dashboard \<Rightarrow> dashboard" where
  "animateCounter now elementId target suffix s =
     (case elements s elementId of
        None \<Rightarrow> s
      | Some txt \<Rightarrow>
          s\<lparr>rafQueue := rafQueue s @
              [\<lparr>anim_element = elementId, startValue = or_zero (parseInt txt),
                targetValue = target, anim_suffix = suffix, startTime = now\<rparr>]\<rparr>)"

definition progress_at :: "animation \<Rightarrow> real \<Rightarrow> real" where
  "progress_at a currentTime = min ((currentTime - startTime a) / 1000) 1"

definition easeOutQuart :: "real \<Rightarrow> real" where
  "easeOutQuart progress = 1 - (1 - progress) ^ 4"

definition currentValue :: "animation \<Rightarrow> real \<Rightarrow> int option" where
  "currentValue a currentTime =
     (case targetValue a of
        None \<Rightarrow> None
      | Some target \<Rightarrow>
          Some (js_round (real_of_int (startValue a) +
                          real_of_int (target - startValue a) *
                          easeOutQuart (progress_at a currentTime))))"

definition animate :: "real \<Rightarrow> animation \<Rightarrow> dashboard \<Rightarrow> dashboard" where
  "animate currentTime a s =
     (let s1 = s\<lparr>elements := (elements s)(anim_element a \<mapsto>
                   number_text (currentValue a currentTime) @ anim_suffix a)\<rparr>
      in if progress_at a currentTime < 1 then s1\<lparr>rafQueue := rafQueue s1 @ [a]\<rparr> else s1)"

definition animationFrame :: "real \<Rightarrow> dashboard \<Rightarrow> dashboard" where
  "animationFrame currentTime s =
     foldl (\<lambda>st a. animate currentTime a st) (s\<lparr>rafQueue := []\<rparr>) (rafQueue s)"

section \<open>Render functions\<close>

text \<open>
  \<^verbatim>\<open>Math.round((activeVehicles / totalVehicles) * 100)\<close>. The active vehicles are among
  the total, so a zero divisor comes with a zero dividend, and \<open>0 / 0\<close> is \<open>NaN\<close>.
\<close>

definition rounded_percentage :: "int \<Rightarrow> int \<Rightarrow> int option" where
  "rounded_percentage activeVehicles totalVehicles =
     (if totalVehicles = 0 then None
      else Some (js_round (real_of_int activeVehicles / real_of_int totalVehicles * 100)))"

definition updateVehicleStats :: "real \<Rightarrow> vehicle list \<Rightarrow> dashboard \<Rightarrow> dashboard" where
  "updateVehicleStats now vs s0 =
     (let s = enter UpdateVehicleStats s0;
          totalVehicles = int (length vs);
          activeVehicles = int (length (filter (\<lambda>v. status v = ''In Transit'') vs));
          idleVehicles = int (length (filter (\<lambda>v. status v = ''Available'') vs));
          s1 = animateCounter now ''totalVehicles'' (Some totalVehicles) [] s;
          s2 = animateCounter now ''activeVehicles'' (Some activeVehicles) [] s1;
          s3 = animateCounter now ''idleVehicles'' (Some idleVehicles) [] s2;
          efficiency =
            (if totalVehicles > 0
             then rounded_percentage activeVehicles totalVehicles
             else Some 0)
      in animateCounter now ''fleetEfficiency'' efficiency ''%'' s3)"

definition setRegion :: "string \<Rightarrow> markup \<Rightarrow> dashboard \<Rightarrow> dashboard" where
  "setRegion elementId html s = s\<lparr>regions := (regions s)(elementId \<mapsto> html)\<rparr>"

definition updateWeatherInfo :: "weather \<Rightarrow> dashboard \<Rightarrow> dashboard" where
  "updateWeatherInfo w s0 =
     (let s = enter UpdateWeatherInfo s0 in
      case elements s ''weatherInfo'' of
        None \<Rightarrow> s
      | Some _ \<Rightarrow>
          setRegion ''weatherInfo''
            (WeatherCard (condition w) (temperature w) (humidity w) (visibility w)) s)"

definition getTrafficColor :: "string \<Rightarrow> string" where
  "getTrafficColor lvl =
     (if lvl = ''Low'' then ''#11998e''
      else if lvl = ''Medium'' then ''#f093fb''
      else if lvl = ''High'' then ''#f5576c''
      else ''#667eea'')"

definition updateTrafficInfo :: "traffic \<Rightarrow> dashboard \<Rightarrow> dashboard" where
  "updateTrafficInfo t s0 =
     (let s = enter UpdateTrafficInfo s0 in
      case elements s ''trafficInfo'' of
        None \<Rightarrow> s
      | Some _ \<Rightarrow>
          setRegion ''trafficInfo''
            (TrafficCard (getTrafficColor (level t)) (level t)
               (js_round (delay_minutes t)) (traffic_timestamp t)) s)"

definition updateMaintenanceAlerts :: "maintenance \<Rightarrow> dashboard \<Rightarrow> dashboard" where
  "updateMaintenanceAlerts m s0 =
     (let s = enter UpdateMaintenanceAlerts s0 in
      case (elements s ''maintenanceAlerts'', alerts m) of
        (Some _, Some als) \<Rightarrow>
          (let criticalAlerts = filter (\<lambda>a. urgency a = ''Critical'') als;
               warningAlerts = filter (\<lambda>a. urgency a = ''Warning'') als;
               s1 = setRegion ''maintenanceAlerts''
                      (AlertsSummary (length criticalAlerts) (length warningAlerts)) s
           in foldl (\<lambda>st a. showNotification (''Critical: '' @ message a) Error 10000 st)
                s1 criticalAlerts)
      | _ \<Rightarrow> s)"

definition updateLiveTracking :: "track list \<Rightarrow> dashboard \<Rightarrow> dashboard" where
  "updateLiveTracking ts s0 =
     (let s = enter UpdateLiveTracking s0 in
      case elements s ''liveTracking'' of
        None \<Rightarrow> s
      | Some _ \<Rightarrow>
          if length ts > 0
          then setRegion ''liveTracking''
                 (TrackingItems
                    (map (\<lambda>t. TrackingItem (employee_id t) (vehicle_number t)
                                (toLowerCase (trip_status t)) (trip_status t)
                                (track_timestamp t))
                       (take 5 ts))) s
          else s)"

section \<open>Charts\<close>

text \<open>
  \<^verbatim>\<open>updateCarbonTrendChart\<close>: \<^verbatim>\<open>push\<close> on both arrays, then \<^verbatim>\<open>shift\<close> on both when the
  labels are more than 10. \<open>timeLabel\<close> is the text of the current time and \<open>r\<close> the
  result of \<^verbatim>\<open>Math.random()\<close>.
\<close>

definition updateCarbonTrendChart :: "string \<Rightarrow> real \<Rightarrow> trend_chart \<Rightarrow> trend_chart" where
  "updateCarbonTrendChart timeLabel r chart =
     (let c1 = chart\<lparr>labels := labels chart @ [timeLabel]\<rparr>;
          c2 = c1\<lparr>data := data c1 @ [r * 100 + 50]\<rparr>
      in if length (labels c2) > 10
         then c2\<lparr>labels := tl (labels c2), data := tl (data c2)\<rparr>
         else c2)"

definition updateFuelConsumptionChart :: "real \<Rightarrow> real \<Rightarrow> real \<Rightarrow> real list \<Rightarrow> real list" where
  "updateFuelConsumptionChart r1 r2 r3 chart = [r1 * 30 + 60, r2 * 20 + 20, r3 * 10 + 5]"

definition updateEfficiencyChart :: "(nat \<Rightarrow> real) \<Rightarrow> real list \<Rightarrow> real list" where
  "updateEfficiencyChart rs chart = map (\<lambda>i. rs i * 20 + 75) [0..<length chart]"

definition updateCharts :: "tick_env \<Rightarrow> dashboard \<Rightarrow> dashboard" where
  "updateCharts env s0 =
     (let s = enter UpdateCharts s0;
          s1 = s\<lparr>carbonTrend :=
                   map_option (updateCarbonTrendChart (clockLabel env) (random env 0))
                     (carbonTrend s)\<rparr>;
          s2 = s1\<lparr>fuelConsumption :=
                    map_option (updateFuelConsumptionChart (random env 1) (random env 2)
                                  (random env 3))
                      (fuelConsumption s1)\<rparr>
      in s2\<lparr>efficiency :=
               map_option (updateEfficiencyChart (\<lambda>i. random env (4 + i))) (efficiency s2)\<rparr>)"

definition initializeCharts :: "dashboard \<Rightarrow> dashboard" where
  "initializeCharts s =
     (let s1 = (case elements s ''carbonTrendChart'' of
                  None \<Rightarrow> s
                | Some _ \<Rightarrow> s\<lparr>carbonTrend := Some \<lparr>labels = [], data = []\<rparr>\<rparr>);
          s2 = (case elements s1 ''fuelConsumptionChart'' of
                  None \<Rightarrow> s1
                | Some _ \<Rightarrow> s1\<lparr>fuelConsumption := Some [70, 25, 5]\<rparr>)
      in case elements s2 ''efficiencyChart'' of
           None \<Rightarrow> s2
         | Some _ \<Rightarrow> s2\<lparr>efficiency := Some [85, 92, 78, 95, 88, 82, 90]\<rparr>)"

section \<open>One tick\<close>

text \<open>
  \<^verbatim>\<open>Promise.all\<close> over the five requests: the five values when every request is
  fulfilled, a rejection when one of them is rejected.
\<close>

definition promise_all ::
  "tick_env \<Rightarrow> fetch_error + (vehicle list \<times> weather \<times> traffic \<times> maintenance \<times> track list)" where
  "promise_all env =
     (case vehicleFetch env of Inl e \<Rightarrow> Inl e | Inr v \<Rightarrow>
      case weatherFetch env of Inl e \<Rightarrow> Inl e | Inr w \<Rightarrow>
      case trafficFetch env of Inl e \<Rightarrow> Inl e | Inr t \<Rightarrow>
      case maintenanceFetch env of Inl e \<Rightarrow> Inl e | Inr m \<Rightarrow>
      case trackingFetch env of Inl e \<Rightarrow> Inl e | Inr k \<Rightarrow> Inr (v, w, t, m, k))"

text \<open>
  \<^verbatim>\<open>fetchRealTimeData\<close>, with the wait for the five requests collapsed: the body up to
  \<^verbatim>\<open>await\<close> and the continuation (or the \<^verbatim>\<open>catch\<close> block) run as one step. The
  payloads have the types of the endpoints' contract, so no render function throws.
\<close>

definition fetchRealTimeData :: "tick_env \<Rightarrow> dashboard \<Rightarrow> dashboard" where
  "fetchRealTimeData env s0 =
     (let s = showLoadingIndicators (enter FetchRealTimeData s0) in
      case promise_all env of
        Inr (vehicleData, weatherData, trafficData, maintenanceData, trackingData) \<Rightarrow>
          (let s1 = updateVehicleStats (perfNow env) vehicleData s;
               s2 = updateWeatherInfo weatherData s1;
               s3 = updateTrafficInfo trafficData s2;
               s4 = updateMaintenanceAlerts maintenanceData s3;
               s5 = updateLiveTracking trackingData s4;
               s6 = updateCharts env s5;
               s7 = hideLoadingIndicators s6
           in updateLastRefreshTime (clockLabel env) s7)
      | Inl error \<Rightarrow>
          hideLoadingIndicators
            (showNotification ''Failed to fetch real-time data'' Error 5000 s))"

section \<open>Starting and stopping the polling timer\<close>

text \<open>
  The browser's \<^verbatim>\<open>setInterval\<close> and \<^verbatim>\<open>clearInterval\<close>. An identifier is a positive
  integer that was not handed out before; the new one is \<open>timerCount\<close> of the result.
\<close>

definition setInterval :: "int option \<Rightarrow> dashboard \<Rightarrow> dashboard" where
  "setInterval delay s =
     s\<lparr>timers := timers s @ [(Suc (timerCount s), delay)], timerCount := Suc (timerCount s)\<rparr>"

definition clearInterval :: "nat \<Rightarrow> dashboard \<Rightarrow> dashboard" where
  "clearInterval h s = s\<lparr>timers := filter (\<lambda>(i, d). i \<noteq> h) (timers s)\<rparr>"

text \<open>
  The test \<^verbatim>\<open>if (this.updateTimer)\<close> holds for a handle that is set and is not zero.
\<close>

definition startLiveUpdates :: "tick_env \<Rightarrow> dashboard \<Rightarrow> dashboard" where
  "startLiveUpdates env s =
     (let s1 = (case updateTimer s of
                  None \<Rightarrow> s
                | Some h \<Rightarrow> if h \<noteq> 0 then clearInterval h s else s);
          s2 = setInterval (updateInterval s1) s1;
          s3 = s2\<lparr>updateTimer := Some (timerCount s2)\<rparr>
      in fetchRealTimeData env s3)"

definition stopLiveUpdates :: "dashboard \<Rightarrow> dashboard" where
  "stopLiveUpdates s =
     (case updateTimer s of
        None \<Rightarrow> s
      | Some h \<Rightarrow> if h \<noteq> 0 then (clearInterval h s)\<lparr>updateTimer := None\<rparr> else s)"

definition restartLiveUpdates :: "tick_env \<Rightarrow> dashboard \<Rightarrow> dashboard" where
  "restartLiveUpdates env s =
     (let s1 = stopLiveUpdates s in
      if isLiveMode s1 then startLiveUpdates env s1 else s1)"

text \<open>The callback given to \<^verbatim>\<open>setInterval\<close>, run each time the timer fires.\<close>

definition timerFired :: "tick_env \<Rightarrow> dashboard \<Rightarrow> dashboard" where
  "timerFired env s = (if isLiveMode s then fetchRealTimeData env s else s)"

definition live_data_text :: string where
  "live_data_text = [CHR 0xF0, CHR 0x9F, CHR 0x94, CHR 0xB4] @ '' Live Data''"

definition toggleLiveMode :: "tick_env \<Rightarrow> bool \<Rightarrow> dashboard \<Rightarrow> dashboard" where
  "toggleLiveMode env enabled s0 =
     (let s = s0\<lparr>isLiveMode := enabled\<rparr> in
      if enabled
      then (let s1 = startLiveUpdates env s;
                s2 = (case liveIndicator s1 of
                        None \<Rightarrow> s1
                      | Some _ \<Rightarrow> s1\<lparr>liveIndicator := Some (DisplayInlineFlex, live_data_text)\<rparr>)
            in showNotification ''Live mode enabled'' Success 5000 s2)
      else (let s1 = stopLiveUpdates s;
                s2 = (case liveIndicator s1 of
                        None \<Rightarrow> s1
                      | Some (d, txt) \<Rightarrow> s1\<lparr>liveIndicator := Some (DisplayNone, txt)\<rparr>)
            in showNotification ''Live mode disabled'' Info 5000 s2))"

text \<open>The \<^verbatim>\<open>change\<close> handler of the interval selector; \<open>v\<close> is the selected value.\<close>

definition intervalChanged :: "tick_env \<Rightarrow> string \<Rightarrow> dashboard \<Rightarrow> dashboard" where
  "intervalChanged env v s0 =
     (let s = s0\<lparr>updateInterval := map_option (\<lambda>n. n * 1000) (parseInt v)\<rparr> in
      if isLiveMode s then restartLiveUpdates env s else s)"

definition refreshAllData :: "tick_env \<Rightarrow> dashboard \<Rightarrow> dashboard" where
  "refreshAllData env s =
     fetchRealTimeData env (showNotification ''Refreshing all data...'' Info 5000 s)"

text \<open>
  A page before the script runs: its elements, loading indicators, live indicator and
  notification permission; nothing scheduled, nothing shown.
\<close>

definition page ::
  "(string \<rightharpoonup> string) \<Rightarrow> display list \<Rightarrow> (display \<times> string) option \<Rightarrow> permission \<Rightarrow> dashboard" where
  "page els inds live perm =
     \<lparr>updateInterval = None, isLiveMode = False, updateTimer = None,
      carbonTrend = None, fuelConsumption = None, efficiency = None,
      timers = [], timerCount = 0, elements = els, regions = Map.empty,
      loadingIndicators = inds, liveIndicator = live, rafQueue = [], toasts = [],
      notificationPermission = perm, nativeAlerts = [], calls = []\<rparr>"

text \<open>
  The constructor with \<^verbatim>\<open>init\<close>. \<^verbatim>\<open>setupEventListeners\<close> registers the handlers modelled
  above; \<^verbatim>\<open>setupNotifications\<close> asks for the permission and does not wait for the answer.
\<close>

definition init :: "tick_env \<Rightarrow> dashboard \<Rightarrow> dashboard" where
  "init env s = startLiveUpdates env (initializeCharts s)"

definition new_RealTimeDashboard :: "tick_env \<Rightarrow> dashboard \<Rightarrow> dashboard" where
  "new_RealTimeDashboard env p =
     init env (p\<lparr>updateInterval := Some 30000, isLiveMode := False,
                 carbonTrend := None, fuelConsumption := None, efficiency := None\<rparr>)"

section \<open>Notions used to state the properties\<close>

text \<open>The part of the state that the polling lifecycle is about.\<close>

definition schedule ::
  "dashboard \<Rightarrow> int option \<times> bool \<times> nat option \<times> (nat \<times> int option) list \<times> nat" where
  "schedule s = (updateInterval s, isLiveMode s, updateTimer s, timers s, timerCount s)"

text \<open>
  The handle is never zero, and the scheduled timers are exactly the one the handle
  names, or none when the handle is not set.
\<close>

definition lifecycle_inv :: "dashboard \<Rightarrow> bool" where
  "lifecycle_inv s =
     (updateTimer s \<noteq> Some 0 \<and>
      map fst (timers s) = (case updateTimer s of None \<Rightarrow> [] | Some h \<Rightarrow> [h]))"

text \<open>
  The states the controller can be in: constructed on a page, then any sequence of the
  methods, of the handlers, of firings of a scheduled timer and of animation frames.
\<close>

inductive reachable :: "dashboard \<Rightarrow> bool" where
  construct: "reachable (new_RealTimeDashboard env (page els inds live perm))"
| toggle: "reachable s \<Longrightarrow> reachable (toggleLiveMode env enabled s)"
| start: "reachable s \<Longrightarrow> reachable (startLiveUpdates env s)"
| stop: "reachable s \<Longrightarrow> reachable (stopLiveUpdates s)"
| restart: "reachable s \<Longrightarrow> reachable (restartLiveUpdates env s)"
| interval: "reachable s \<Longrightarrow> reachable (intervalChanged env v s)"
| refresh: "reachable s \<Longrightarrow> reachable (refreshAllData env s)"
| fired: "reachable s \<Longrightarrow> timers s \<noteq> [] \<Longrightarrow> reachable (timerFired env s)"
| frame: "reachable s \<Longrightarrow> reachable (animationFrame t s)"

definition rejected :: "fetch_error + 'a \<Rightarrow> bool" where
  "rejected r = (case r of Inl e \<Rightarrow> True | Inr v \<Rightarrow> False)"

definition any_rejected :: "tick_env \<Rightarrow> bool" where
  "any_rejected env =
     (rejected (vehicleFetch env) \<or> rejected (weatherFetch env) \<or>
      rejected (trafficFetch env) \<or> rejected (maintenanceFetch env) \<or>
      rejected (trackingFetch env))"

definition render_calls :: "call list" where
  "render_calls =
     [UpdateVehicleStats, UpdateWeatherInfo, UpdateTrafficInfo, UpdateMaintenanceAlerts,
      UpdateLiveTracking]"

definition error_toasts :: "dashboard \<Rightarrow> notification list" where
  "error_toasts s = filter (\<lambda>n. toast_type n = Error) (toasts s)"

text \<open>The number of ticks so far.\<close>

definition ticks :: "dashboard \<Rightarrow> nat" where
  "ticks s = count_list (calls s) FetchRealTimeData"


definition run_frames :: "real list \<Rightarrow> dashboard \<Rightarrow> dashboard" where
  "run_frames ts s = foldl (\<lambda>st t. animationFrame t st) s ts"

subsection \<open>Sample inputs\<close>

definition offline :: tick_env where
  "offline =
     \<lparr>vehicleFetch = Inl NetworkError, weatherFetch = Inl NetworkError,
      trafficFetch = Inl NetworkError, maintenanceFetch = Inl NetworkError,
      trackingFetch = Inl NetworkError, perfNow = 0, clockLabel = ''12:00:00'',
      random = (\<lambda>i. 0)\<rparr>"

definition empty_page :: dashboard where
  "empty_page = page Map.empty [] None Default"


definition scenario_vehicles :: "vehicle list" where
  "scenario_vehicles =
     [\<lparr>status = ''In Transit''\<rparr>, \<lparr>status = ''Available''\<rparr>, \<lparr>status = ''In Transit''\<rparr>]"

definition sample_page :: dashboard where
  "sample_page =
     page (Map.empty(''totalVehicles'' \<mapsto> ''0'', ''activeVehicles'' \<mapsto> ''0'',
                     ''idleVehicles'' \<mapsto> ''0'', ''fleetEfficiency'' \<mapsto> ''0%'',
                     ''maintenanceAlerts'' \<mapsto> []))
       [DisplayDefault] None Default"

definition sample_maintenance :: maintenance where
  "sample_maintenance =
     \<lparr>alerts = Some [\<lparr>urgency = ''Critical'', message = ''Brake wear''\<rparr>,
                      \<lparr>urgency = ''Warning'', message = ''Oil change due''\<rparr>,
                      \<lparr>urgency = ''Critical'', message = ''Engine fault''\<rparr>]\<rparr>"

definition full_trend :: trend_chart where
  "full_trend =
     \<lparr>labels = [''t0'', ''t1'', ''t2'', ''t3'', ''t4'', ''t5'', ''t6'', ''t7'', ''t8'', ''t9''],
      data = [51, 52, 53, 54, 55, 56, 57, 58, 59, 60]\<rparr>"

text \<open>The trend series has at most 10 points, each with a label and a value.\<close>

definition trend_bounded :: "dashboard \<Rightarrow> bool" where
  "trend_bounded s =
     (case carbonTrend s of
        None \<Rightarrow> True
      | Some c \<Rightarrow> length (labels c) \<le> 10 \<and> length (data c) = length (labels c))"

definition live_dashboard :: dashboard where
  "live_dashboard = toggleLiveMode offline True (new_RealTimeDashboard offline empty_page)"

section \<open>Basic facts\<close>

subsection \<open>A tick leaves the schedule alone\<close>

lemma schedule_enter [simp]: "schedule (enter c s) = schedule s"
  by (simp add: schedule_def enter_def)

lemma schedule_showNotification [simp]: "schedule (showNotification m t d s) = schedule s"
  by (simp add: schedule_def showNotification_def Let_def)

lemma schedule_showLoadingIndicators [simp]: "schedule (showLoadingIndicators s) = schedule s"
  by (simp add: schedule_def showLoadingIndicators_def)

lemma schedule_hideLoadingIndicators [simp]: "schedule (hideLoadingIndicators s) = schedule s"
  by (simp add: schedule_def hideLoadingIndicators_def)

lemma schedule_updateLastRefreshTime [simp]: "schedule (updateLastRefreshTime l s) = schedule s"
  by (simp add: schedule_def updateLastRefreshTime_def split: option.splits)

lemma schedule_animateCounter [simp]: "schedule (animateCounter now e t sf s) = schedule s"
  by (simp add: schedule_def animateCounter_def split: option.splits)

lemma schedule_setRegion [simp]: "schedule (setRegion e h s) = schedule s"
  by (simp add: schedule_def setRegion_def)

lemma schedule_updateVehicleStats [simp]: "schedule (updateVehicleStats now vs s) = schedule s"
  by (simp add: updateVehicleStats_def Let_def)

lemma schedule_updateWeatherInfo [simp]: "schedule (updateWeatherInfo w s) = schedule s"
  by (simp add: updateWeatherInfo_def Let_def split: option.splits)

lemma schedule_updateTrafficInfo [simp]: "schedule (updateTrafficInfo t s) = schedule s"
  by (simp add: updateTrafficInfo_def Let_def split: option.splits)

lemma schedule_notify_each [simp]:
  "schedule (foldl (\<lambda>st a. showNotification (f a) t d st) s as) = schedule s"
  by (induction as arbitrary: s) simp_all

lemma schedule_updateMaintenanceAlerts [simp]: "schedule (updateMaintenanceAlerts m s) = schedule s"
  by (simp add: updateMaintenanceAlerts_def Let_def split: option.splits)

lemma schedule_updateLiveTracking [simp]: "schedule (updateLiveTracking ts s) = schedule s"
  by (simp add: updateLiveTracking_def Let_def split: option.splits)

lemma schedule_updateCharts [simp]: "schedule (updateCharts env s) = schedule s"
  by (simp add: updateCharts_def Let_def schedule_def enter_def)

lemma schedule_fetchRealTimeData [simp]: "schedule (fetchRealTimeData env s) = schedule s"
  by (simp add: fetchRealTimeData_def Let_def split: sum.splits prod.splits)

lemma schedule_animate [simp]: "schedule (animate t a s) = schedule s"
  by (simp add: schedule_def animate_def Let_def)

lemma schedule_animate_each: "schedule (foldl (\<lambda>st a. animate t a st) s as) = schedule s"
  by (induction as arbitrary: s) simp_all

lemma schedule_animationFrame [simp]: "schedule (animationFrame t s) = schedule s"
  by (simp add: animationFrame_def schedule_animate_each) (simp add: schedule_def)

lemma schedule_initializeCharts [simp]: "schedule (initializeCharts s) = schedule s"
  by (simp add: initializeCharts_def Let_def schedule_def split: option.splits)

subsection \<open>The timer handle and the scheduled timers\<close>

lemma schedule_fields:
  "schedule s' = schedule s \<Longrightarrow>
     updateInterval s' = updateInterval s \<and> isLiveMode s' = isLiveMode s \<and>
     updateTimer s' = updateTimer s \<and> timers s' = timers s \<and> timerCount s' = timerCount s"
  by (simp add: schedule_def)

lemmas fetch_schedule = schedule_fields [OF schedule_fetchRealTimeData]

lemma lifecycle_inv_cong:
  "schedule s' = schedule s \<Longrightarrow> lifecycle_inv s' = lifecycle_inv s"
  by (simp add: lifecycle_inv_def schedule_def)

lemma filter_single_id:
  "map fst ts = [h] \<Longrightarrow> filter (\<lambda>(i, d). i \<noteq> h) ts = []"
  by (cases ts) auto

lemma start_timers:
  assumes "lifecycle_inv s"
  shows "timers (startLiveUpdates env s) = [(Suc (timerCount s), updateInterval s)]"
    and "updateTimer (startLiveUpdates env s) = Some (Suc (timerCount s))"
    and "timerCount (startLiveUpdates env s) = Suc (timerCount s)"
    and "isLiveMode (startLiveUpdates env s) = isLiveMode s"
    and "updateInterval (startLiveUpdates env s) = updateInterval s"
  using assms
  by (auto simp: startLiveUpdates_def lifecycle_inv_def Let_def fetch_schedule
      setInterval_def clearInterval_def filter_single_id split: option.splits)

lemma stop_timers:
  assumes "lifecycle_inv s"
  shows "timers (stopLiveUpdates s) = []"
    and "updateTimer (stopLiveUpdates s) = None"
  using assms
  by (auto simp: stopLiveUpdates_def lifecycle_inv_def clearInterval_def filter_single_id
      split: option.splits)

lemma stop_other_fields:
  "timerCount (stopLiveUpdates s) = timerCount s"
  "isLiveMode (stopLiveUpdates s) = isLiveMode s"
  "updateInterval (stopLiveUpdates s) = updateInterval s"
  "calls (stopLiveUpdates s) = calls s"
  by (simp_all add: stopLiveUpdates_def clearInterval_def split: option.splits)

lemma lifecycle_inv_start: "lifecycle_inv s \<Longrightarrow> lifecycle_inv (startLiveUpdates env s)"
  by (simp add: lifecycle_inv_def [of "startLiveUpdates env s"] start_timers)

lemma lifecycle_inv_stop: "lifecycle_inv s \<Longrightarrow> lifecycle_inv (stopLiveUpdates s)"
  by (simp add: lifecycle_inv_def [of "stopLiveUpdates s"] stop_timers)

lemma lifecycle_inv_restart: "lifecycle_inv s \<Longrightarrow> lifecycle_inv (restartLiveUpdates env s)"
  by (simp add: restartLiveUpdates_def Let_def lifecycle_inv_start lifecycle_inv_stop)

lemma lifecycle_inv_flag [simp]: "lifecycle_inv (s\<lparr>isLiveMode := b\<rparr>) = lifecycle_inv s"
  by (simp add: lifecycle_inv_def)

lemma lifecycle_inv_interval [simp]: "lifecycle_inv (s\<lparr>updateInterval := d\<rparr>) = lifecycle_inv s"
  by (simp add: lifecycle_inv_def)

lemma lifecycle_inv_indicator [simp]: "lifecycle_inv (s\<lparr>liveIndicator := d\<rparr>) = lifecycle_inv s"
  by (simp add: lifecycle_inv_def)

lemma lifecycle_inv_toggle: "lifecycle_inv s \<Longrightarrow> lifecycle_inv (toggleLiveMode env b s)"
  by (auto simp: toggleLiveMode_def Let_def lifecycle_inv_cong [OF schedule_showNotification]
      lifecycle_inv_start lifecycle_inv_stop split: option.splits)

lemma lifecycle_inv_intervalChanged:
  "lifecycle_inv s \<Longrightarrow> lifecycle_inv (intervalChanged env v s)"
  by (simp add: intervalChanged_def Let_def lifecycle_inv_restart)

lemma lifecycle_inv_construct:
  "lifecycle_inv (new_RealTimeDashboard env (page els inds live perm))"
proof -
  let ?p = "(page els inds live perm)\<lparr>updateInterval := Some 30000, isLiveMode := False,
              carbonTrend := None, fuelConsumption := None, efficiency := None\<rparr>"
  have "lifecycle_inv ?p"
    by (simp add: lifecycle_inv_def page_def)
  then have "lifecycle_inv (initializeCharts ?p)"
    by (simp only: lifecycle_inv_cong [OF schedule_initializeCharts])
  then show ?thesis
    unfolding new_RealTimeDashboard_def init_def by (rule lifecycle_inv_start)
qed

lemma reachable_lifecycle_inv: "reachable s \<Longrightarrow> lifecycle_inv s"
proof (induction rule: reachable.induct)
  case (construct env els inds live perm)
  show ?case by (rule lifecycle_inv_construct)
next
  case (toggle s env enabled)
  then show ?case by (simp add: lifecycle_inv_toggle)
next
  case (start s env)
  then show ?case by (simp add: lifecycle_inv_start)
next
  case (stop s)
  then show ?case by (simp add: lifecycle_inv_stop)
next
  case (restart s env)
  then show ?case by (simp add: lifecycle_inv_restart)
next
  case (interval s env v)
  then show ?case by (simp add: lifecycle_inv_intervalChanged)
next
  case (refresh s env)
  then show ?case
    by (simp add: refreshAllData_def lifecycle_inv_cong [OF schedule_fetchRealTimeData]
        lifecycle_inv_cong [OF schedule_showNotification])
next
  case (fired s env)
  then show ?case
    by (simp add: timerFired_def lifecycle_inv_cong [OF schedule_fetchRealTimeData])
next
  case (frame s t)
  then show ?case by (simp add: lifecycle_inv_cong [OF schedule_animationFrame])
qed

subsection \<open>Which methods a tick enters\<close>

lemma calls_enter [simp]: "calls (enter c s) = calls s @ [c]"
  by (simp add: enter_def)

lemma calls_showNotification [simp]: "calls (showNotification m t d s) = calls s"
  by (simp add: showNotification_def Let_def)

lemma calls_showLoadingIndicators [simp]: "calls (showLoadingIndicators s) = calls s"
  by (simp add: showLoadingIndicators_def)

lemma calls_hideLoadingIndicators [simp]: "calls (hideLoadingIndicators s) = calls s"
  by (simp add: hideLoadingIndicators_def)

lemma calls_updateLastRefreshTime [simp]: "calls (updateLastRefreshTime l s) = calls s"
  by (simp add: updateLastRefreshTime_def split: option.splits)

lemma calls_animateCounter [simp]: "calls (animateCounter now e t sf s) = calls s"
  by (simp add: animateCounter_def split: option.splits)

lemma calls_setRegion [simp]: "calls (setRegion e h s) = calls s"
  by (simp add: setRegion_def)

lemma calls_updateVehicleStats [simp]:
  "calls (updateVehicleStats now vs s) = calls s @ [UpdateVehicleStats]"
  by (simp add: updateVehicleStats_def Let_def)

lemma calls_updateWeatherInfo [simp]:
  "calls (updateWeatherInfo w s) = calls s @ [UpdateWeatherInfo]"
  by (simp add: updateWeatherInfo_def Let_def split: option.splits)

lemma calls_updateTrafficInfo [simp]:
  "calls (updateTrafficInfo t s) = calls s @ [UpdateTrafficInfo]"
  by (simp add: updateTrafficInfo_def Let_def split: option.splits)

lemma calls_notify_each [simp]:
  "calls (foldl (\<lambda>st a. showNotification (f a) t d st) s as) = calls s"
  by (induction as arbitrary: s) simp_all

lemma calls_updateMaintenanceAlerts [simp]:
  "calls (updateMaintenanceAlerts m s) = calls s @ [UpdateMaintenanceAlerts]"
  by (simp add: updateMaintenanceAlerts_def Let_def split: option.splits)

lemma calls_updateLiveTracking [simp]:
  "calls (updateLiveTracking ts s) = calls s @ [UpdateLiveTracking]"
  by (simp add: updateLiveTracking_def Let_def split: option.splits)

lemma calls_updateCharts [simp]: "calls (updateCharts env s) = calls s @ [UpdateCharts]"
  by (simp add: updateCharts_def Let_def enter_def)

lemma calls_fetchRealTimeData:
  "calls (fetchRealTimeData env s) =
     calls s @ FetchRealTimeData #
       (case promise_all env of Inl e \<Rightarrow> [] | Inr r \<Rightarrow> render_calls @ [UpdateCharts])"
  by (simp add: fetchRealTimeData_def Let_def render_calls_def split: sum.splits prod.splits)

lemma ticks_fetchRealTimeData: "ticks (fetchRealTimeData env s) = Suc (ticks s)"
  by (simp add: ticks_def calls_fetchRealTimeData render_calls_def split: sum.splits)

lemma promise_all_rejected: "any_rejected env \<Longrightarrow> \<exists>e. promise_all env = Inl e"
  by (auto simp: any_rejected_def rejected_def promise_all_def split: sum.splits)

lemma fetch_rejected:
  assumes "any_rejected env"
  shows "fetchRealTimeData env s =
           hideLoadingIndicators
             (showNotification ''Failed to fetch real-time data'' Error 5000
                (showLoadingIndicators (enter FetchRealTimeData s)))"
proof -
  obtain e where "promise_all env = Inl e"
    using promise_all_rejected [OF assms] by blast
  then show ?thesis by (simp add: fetchRealTimeData_def)
qed

subsection \<open>The state after construction\<close>

lemma construct_fields:
  "timers (new_RealTimeDashboard env (page els inds live perm)) = [(1, Some 30000)]"
  "updateTimer (new_RealTimeDashboard env (page els inds live perm)) = Some 1"
  "isLiveMode (new_RealTimeDashboard env (page els inds live perm)) = False"
  "timerCount (new_RealTimeDashboard env (page els inds live perm)) = 1"
  "updateInterval (new_RealTimeDashboard env (page els inds live perm)) = Some 30000"
proof -
  let ?p = "(page els inds live perm)\<lparr>updateInterval := Some 30000, isLiveMode := False,
              carbonTrend := None, fuelConsumption := None, efficiency := None\<rparr>"
  have p: "lifecycle_inv (initializeCharts ?p)"
    by (simp add: lifecycle_inv_cong [OF schedule_initializeCharts])
      (simp add: lifecycle_inv_def page_def)
  have f: "timerCount (initializeCharts ?p) = 0" "updateInterval (initializeCharts ?p) = Some 30000"
    "isLiveMode (initializeCharts ?p) = False"
    by (simp_all add: schedule_fields [OF schedule_initializeCharts]) (simp_all add: page_def)
  show "timers (new_RealTimeDashboard env (page els inds live perm)) = [(1, Some 30000)]"
    "updateTimer (new_RealTimeDashboard env (page els inds live perm)) = Some 1"
    "isLiveMode (new_RealTimeDashboard env (page els inds live perm)) = False"
    "timerCount (new_RealTimeDashboard env (page els inds live perm)) = 1"
    "updateInterval (new_RealTimeDashboard env (page els inds live perm)) = Some 30000"
    unfolding new_RealTimeDashboard_def init_def
    by (simp_all add: start_timers [OF p] f)
qed

lemma isLiveMode_start: "isLiveMode (startLiveUpdates env s) = isLiveMode s"
  by (simp add: startLiveUpdates_def Let_def fetch_schedule setInterval_def clearInterval_def
      split: option.splits)

lemma isLiveMode_toggle: "isLiveMode (toggleLiveMode env b s) = b"
  by (simp add: toggleLiveMode_def Let_def schedule_fields [OF schedule_showNotification]
      stop_other_fields isLiveMode_start split: option.splits prod.splits)

lemma ticks_start: "ticks (startLiveUpdates env s) = Suc (ticks s)"
  by (simp add: startLiveUpdates_def Let_def ticks_fetchRealTimeData)
    (simp add: ticks_def setInterval_def clearInterval_def split: option.splits)

lemma lifecycle_inv_live_dashboard: "lifecycle_inv live_dashboard"
  unfolding live_dashboard_def empty_page_def
  by (intro lifecycle_inv_toggle lifecycle_inv_construct)

lemma sample_page_elements:
  "elements sample_page ''totalVehicles'' = Some ''0''"
  "elements sample_page ''activeVehicles'' = Some ''0''"
  "elements sample_page ''idleVehicles'' = Some ''0''"
  "elements sample_page ''fleetEfficiency'' = Some ''0%''"
  "elements sample_page ''maintenanceAlerts'' = Some []"
  "rafQueue sample_page = []"
  "toasts sample_page = []"
  by (simp_all add: sample_page_def page_def)

subsection \<open>Frames of a counter animation\<close>

lemma progress_done: "startTime a + 1000 \<le> t \<Longrightarrow> progress_at a t = 1"
  by (simp add: progress_at_def min_def)

lemma currentValue_done:
  "startTime a + 1000 \<le> t \<Longrightarrow> currentValue a t = targetValue a"
  by (simp add: currentValue_def progress_done easeOutQuart_def js_round_def split: option.splits)

lemma animate_done:
  "startTime a + 1000 \<le> t \<Longrightarrow>
   animate t a s = s\<lparr>elements := (elements s)(anim_element a \<mapsto> number_text (targetValue a) @ anim_suffix a)\<rparr>"
  by (simp add: animate_def Let_def progress_done currentValue_done)

lemma vehicle_stats_queue:
  assumes "elements s ''totalVehicles'' = Some x1" and "elements s ''activeVehicles'' = Some x2"
    and "elements s ''idleVehicles'' = Some x3" and "elements s ''fleetEfficiency'' = Some x4"
  shows "rafQueue (updateVehicleStats now vs s) = rafQueue s @
     [\<lparr>anim_element = ''totalVehicles'', startValue = or_zero (parseInt x1),
       targetValue = Some (int (length vs)), anim_suffix = [], startTime = now\<rparr>,
      \<lparr>anim_element = ''activeVehicles'', startValue = or_zero (parseInt x2),
       targetValue = Some (int (length (filter (\<lambda>v. status v = ''In Transit'') vs))),
       anim_suffix = [], startTime = now\<rparr>,
      \<lparr>anim_element = ''idleVehicles'', startValue = or_zero (parseInt x3),
       targetValue = Some (int (length (filter (\<lambda>v. status v = ''Available'') vs))),
       anim_suffix = [], startTime = now\<rparr>,
      \<lparr>anim_element = ''fleetEfficiency'', startValue = or_zero (parseInt x4),
       targetValue = (if vs \<noteq> [] then rounded_percentage (int (length (filter (\<lambda>v. status v = ''In Transit'') vs))) (int (length vs)) else Some 0),
       anim_suffix = ''%'', startTime = now\<rparr>]"
  using assms
  by (simp add: updateVehicleStats_def Let_def animateCounter_def enter_def)

lemma number_texts:
  "number_text (Some 0) = ''0''" "number_text (Some 1) = ''1''" "number_text (Some 2) = ''2''"
  "number_text (Some 3) = ''3''" "number_text (Some 67) = ''67''" "number_text (Some 42) = ''42''"
  by code_simp+

lemma scenario_counts:
  "length scenario_vehicles = 3"
  "length (filter (\<lambda>v. status v = ''In Transit'') scenario_vehicles) = 2"
  "length (filter (\<lambda>v. status v = ''Available'') scenario_vehicles) = 1"
  "scenario_vehicles \<noteq> []"
  "rounded_percentage 2 3 = Some 67"
  by (simp_all add: scenario_vehicles_def rounded_percentage_def js_round_def)

lemma elements_frame_tail:
  assumes "rafQueue s = q @ [a1, a2, a3, a4]"
  shows "elements (animationFrame t s) =
         elements (animate t a4 (animate t a3 (animate t a2 (animate t a1
           (foldl (\<lambda>st a. animate t a st) (s\<lparr>rafQueue := []\<rparr>) q)))))"
  by (simp add: animationFrame_def assms)

subsection \<open>Notifications of a list of alerts\<close>

lemma notify_each_toasts:
  "toasts (foldl (\<lambda>st a. showNotification (f a) ty d st) s as) =
   toasts s @ map (\<lambda>a. \<lparr>toast_message = f a, toast_type = ty, toast_duration = d\<rparr>) as"
  by (induction as arbitrary: s) (simp_all add: showNotification_def Let_def)

lemma notify_each_regions:
  "regions (foldl (\<lambda>st a. showNotification (f a) ty d st) s as) = regions s"
  by (induction as arbitrary: s) (simp_all add: showNotification_def Let_def)

subsection \<open>A single pending animation\<close>


lemma frame_idle: "rafQueue s = [] \<Longrightarrow> animationFrame t s = s"
  by (simp add: animationFrame_def)



lemma run_frames_Cons [simp]: "run_frames (t # ts) s = run_frames ts (animationFrame t s)"
  by (simp add: run_frames_def)

lemma run_frames_Nil [simp]: "run_frames [] s = s"
  by (simp add: run_frames_def)




subsection \<open>The displayed value grows with time\<close>












subsection \<open>The trend series stays within its window\<close>

lemma trend_showNotification [simp]: "carbonTrend (showNotification m t d s) = carbonTrend s"
  by (simp add: showNotification_def Let_def)

lemma trend_notify_each [simp]:
  "carbonTrend (foldl (\<lambda>st a. showNotification (f a) t d st) s as) = carbonTrend s"
  by (induction as arbitrary: s) simp_all

lemma trend_animateCounter [simp]: "carbonTrend (animateCounter now e t sf s) = carbonTrend s"
  by (simp add: animateCounter_def split: option.splits)

lemma trend_renders [simp]:
  "carbonTrend (updateVehicleStats now vs s) = carbonTrend s"
  "carbonTrend (updateWeatherInfo w s) = carbonTrend s"
  "carbonTrend (updateTrafficInfo tr s) = carbonTrend s"
  "carbonTrend (updateMaintenanceAlerts m s) = carbonTrend s"
  "carbonTrend (updateLiveTracking ts s) = carbonTrend s"
  "carbonTrend (updateLastRefreshTime l s) = carbonTrend s"
  "carbonTrend (showLoadingIndicators s) = carbonTrend s"
  "carbonTrend (hideLoadingIndicators s) = carbonTrend s"
  "carbonTrend (enter c s) = carbonTrend s"
  by (simp_all add: updateVehicleStats_def updateWeatherInfo_def updateTrafficInfo_def
      updateMaintenanceAlerts_def updateLiveTracking_def updateLastRefreshTime_def
      showLoadingIndicators_def hideLoadingIndicators_def setRegion_def enter_def Let_def
      split: option.splits)

lemma trend_updateCharts:
  "carbonTrend (updateCharts env s) =
     map_option (updateCarbonTrendChart (clockLabel env) (random env 0)) (carbonTrend s)"
  by (simp add: updateCharts_def Let_def enter_def)

lemma trend_step:
  assumes "length (labels c) \<le> 10" and "length (data c) = length (labels c)"
  shows "length (labels (updateCarbonTrendChart l r c)) \<le> 10"
    and "length (data (updateCarbonTrendChart l r c)) = length (labels (updateCarbonTrendChart l r c))"
  using assms by (simp_all add: updateCarbonTrendChart_def Let_def)

lemma trend_bounded_cong: "carbonTrend s' = carbonTrend s \<Longrightarrow> trend_bounded s' = trend_bounded s"
  by (simp add: trend_bounded_def)

lemma trend_bounded_fetch: "trend_bounded s \<Longrightarrow> trend_bounded (fetchRealTimeData env s)"
  by (auto simp: trend_bounded_def fetchRealTimeData_def Let_def trend_updateCharts trend_step
      split: sum.splits prod.splits option.splits)

lemma trend_stop [simp]: "carbonTrend (stopLiveUpdates s) = carbonTrend s"
  by (simp add: stopLiveUpdates_def clearInterval_def split: option.splits)

lemma trend_bounded_start: "trend_bounded s \<Longrightarrow> trend_bounded (startLiveUpdates env s)"
  unfolding startLiveUpdates_def Let_def
  by (rule trend_bounded_fetch)
    (simp add: trend_bounded_def setInterval_def clearInterval_def split: option.splits)

lemma trend_bounded_restart: "trend_bounded s \<Longrightarrow> trend_bounded (restartLiveUpdates env s)"
  by (simp add: restartLiveUpdates_def Let_def trend_bounded_start trend_bounded_cong [OF trend_stop])

lemma trend_bounded_toggle: "trend_bounded s \<Longrightarrow> trend_bounded (toggleLiveMode env b s)"
proof -
  assume a: "trend_bounded s"
  then have "trend_bounded (s\<lparr>isLiveMode := b\<rparr>)" by (simp add: trend_bounded_def)
  then have "trend_bounded (startLiveUpdates env (s\<lparr>isLiveMode := b\<rparr>))"
    by (rule trend_bounded_start)
  then show ?thesis
    using a by (auto simp: toggleLiveMode_def Let_def trend_bounded_def split: option.splits)
qed

lemma trend_animate [simp]: "carbonTrend (animate t a s) = carbonTrend s"
  by (simp add: animate_def Let_def)

lemma trend_animate_each:
  "carbonTrend (foldl (\<lambda>st a. animate t a st) s as) = carbonTrend s"
  by (induction as arbitrary: s) simp_all

lemma trend_animationFrame [simp]: "carbonTrend (animationFrame t s) = carbonTrend s"
  by (simp add: animationFrame_def trend_animate_each)

lemma trend_bounded_construct:
  "trend_bounded (new_RealTimeDashboard env (page els inds live perm))"
  unfolding new_RealTimeDashboard_def init_def
  by (rule trend_bounded_start)
    (simp add: trend_bounded_def initializeCharts_def Let_def split: option.splits)

lemma reachable_trend_bounded: "reachable s \<Longrightarrow> trend_bounded s"
proof (induction rule: reachable.induct)
  case (construct env els inds live perm)
  show ?case by (rule trend_bounded_construct)
next
  case (toggle s env enabled)
  then show ?case by (simp add: trend_bounded_toggle)
next
  case (start s env)
  then show ?case by (simp add: trend_bounded_start)
next
  case (stop s)
  then show ?case by (simp add: trend_bounded_cong [OF trend_stop])
next
  case (restart s env)
  then show ?case by (simp add: trend_bounded_restart)
next
  case (interval s env v)
  then have "trend_bounded (s\<lparr>updateInterval := map_option (\<lambda>n. n * 1000) (parseInt v)\<rparr>)"
    by (simp add: trend_bounded_def)
  then show ?case
    by (simp add: intervalChanged_def Let_def trend_bounded_restart)
next
  case (refresh s env)
  then have "trend_bounded (showNotification ''Refreshing all data...'' Info 5000 s)"
    by (simp add: trend_bounded_cong [OF trend_showNotification])
  then show ?case
    unfolding refreshAllData_def by (rule trend_bounded_fetch)
next
  case (fired s env)
  then show ?case by (simp add: timerFired_def trend_bounded_fetch)
next
  case (frame s t)
  then show ?case by (simp add: trend_bounded_cong [OF trend_animationFrame])
qed

section \<open>The properties\<close>

subsection \<open>A tick with a failed request\<close>

text \<open>
  Claim C1. When any of the five requests of a tick is rejected, the tick enters none of
  the five render functions: the only method it enters is \<open>fetchRealTimeData\<close> itself,
  and regions, element texts and pending animations stay as they were. It creates
  exactly one toast, of severity \<open>Error\<close>; it leaves every loading indicator hidden; and
  the scheduled timers, the timer handle and the live flag are unchanged, so the timer
  goes on firing.
\<close>

theorem tick_rejected:
  assumes "any_rejected env"
  shows "calls (fetchRealTimeData env s) = calls s @ [FetchRealTimeData]
       \<and> filter (\<lambda>c. c \<in> set render_calls) (calls (fetchRealTimeData env s)) =
           filter (\<lambda>c. c \<in> set render_calls) (calls s)
       \<and> regions (fetchRealTimeData env s) = regions s
       \<and> elements (fetchRealTimeData env s) = elements s
       \<and> rafQueue (fetchRealTimeData env s) = rafQueue s
       \<and> toasts (fetchRealTimeData env s) =
           toasts s @ [\<lparr>toast_message = ''Failed to fetch real-time data'',
                        toast_type = Error, toast_duration = 5000\<rparr>]
       \<and> length (error_toasts (fetchRealTimeData env s)) = Suc (length (error_toasts s))
       \<and> loadingIndicators (fetchRealTimeData env s) =
           replicate (length (loadingIndicators s)) DisplayNone
       \<and> timers (fetchRealTimeData env s) = timers s
       \<and> updateTimer (fetchRealTimeData env s) = updateTimer s
       \<and> isLiveMode (fetchRealTimeData env s) = isLiveMode s"
  unfolding fetch_rejected [OF assms]
  by (simp add: hideLoadingIndicators_def showNotification_def showLoadingIndicators_def
      enter_def error_toasts_def render_calls_def Let_def map_replicate_const)

theorem tick_rejected_witness:
  "any_rejected offline
   \<and> calls (fetchRealTimeData offline sample_page) = calls sample_page @ [FetchRealTimeData]
   \<and> toasts (fetchRealTimeData offline sample_page) =
       toasts sample_page @ [\<lparr>toast_message = ''Failed to fetch real-time data'',
                               toast_type = Error, toast_duration = 5000\<rparr>]
   \<and> loadingIndicators (fetchRealTimeData offline sample_page) =
       replicate (length (loadingIndicators sample_page)) DisplayNone
   \<and> timers (fetchRealTimeData offline sample_page) = timers sample_page"
proof -
  have h: "any_rejected offline"
    by (simp add: any_rejected_def rejected_def offline_def)
  show ?thesis
    using h tick_rejected [OF h, of sample_page] by blast
qed

subsection \<open>The timer handle\<close>

text \<open>
  Claim C2 says that the live flag being false implies that no timer is running. Right
  after construction the flag is false and the timer started by \<open>init\<close> is scheduled,
  with the default delay of 30000 ms.
\<close>

theorem timer_runs_while_not_live:
  "reachable (new_RealTimeDashboard offline empty_page)
   \<and> \<not> isLiveMode (new_RealTimeDashboard offline empty_page)
   \<and> updateTimer (new_RealTimeDashboard offline empty_page) = Some 1
   \<and> timers (new_RealTimeDashboard offline empty_page) = [(1, Some 30000)]"
  unfolding empty_page_def by (simp add: construct_fields reachable.construct)

text \<open>
  Claim C2, as the code has it. In every reachable state the handle is set exactly when
  a timer is scheduled, at most one timer is scheduled, and it is the one the handle
  names. While the live flag is false a firing of the timer does nothing, since the
  callback tests the flag; and switching live mode off leaves no timer scheduled.
\<close>

theorem timer_handle_invariant:
  assumes "reachable s"
  shows "(updateTimer s \<noteq> None) = (timers s \<noteq> [])
       \<and> length (timers s) \<le> 1
       \<and> map fst (timers s) = (case updateTimer s of None \<Rightarrow> [] | Some h \<Rightarrow> [h])
       \<and> (isLiveMode s \<or> timerFired env s = s)
       \<and> \<not> isLiveMode (toggleLiveMode env False s)
       \<and> timers (toggleLiveMode env False s) = []"
proof -
  have inv: "lifecycle_inv s"
    using assms by (rule reachable_lifecycle_inv)
  have a: "map fst (timers s) = (case updateTimer s of None \<Rightarrow> [] | Some h \<Rightarrow> [h])"
    using inv by (simp add: lifecycle_inv_def)
  have b: "(updateTimer s \<noteq> None) = (timers s \<noteq> [])"
    using a by (cases "updateTimer s") auto
  have c: "length (timers s) \<le> 1"
    using arg_cong [OF a, of length] by (simp split: option.splits)
  have d: "isLiveMode s \<or> timerFired env s = s"
    by (simp add: timerFired_def)
  have e: "\<not> isLiveMode (toggleLiveMode env False s)"
    by (simp add: toggleLiveMode_def Let_def schedule_fields [OF schedule_showNotification]
        stop_other_fields split: option.splits prod.splits)
  have "lifecycle_inv (s\<lparr>isLiveMode := False\<rparr>)"
    using inv by simp
  then have f: "timers (toggleLiveMode env False s) = []"
    by (simp add: toggleLiveMode_def Let_def schedule_fields [OF schedule_showNotification]
        stop_timers split: option.splits prod.splits)
  show ?thesis using a b c d e f by blast
qed

theorem timer_handle_invariant_witness:
  "reachable (new_RealTimeDashboard offline empty_page)
   \<and> (updateTimer (new_RealTimeDashboard offline empty_page) \<noteq> None) =
       (timers (new_RealTimeDashboard offline empty_page) \<noteq> [])
   \<and> length (timers (new_RealTimeDashboard offline empty_page)) \<le> 1
   \<and> timerFired offline (new_RealTimeDashboard offline empty_page) =
       new_RealTimeDashboard offline empty_page
   \<and> timers (toggleLiveMode offline False (new_RealTimeDashboard offline empty_page)) = []"
proof -
  have r: "reachable (new_RealTimeDashboard offline empty_page)"
    unfolding empty_page_def by (rule reachable.construct)
  have "\<not> isLiveMode (new_RealTimeDashboard offline empty_page)"
    unfolding empty_page_def by (simp add: construct_fields)
  then show ?thesis
    using r timer_handle_invariant [OF r, of offline] by blast
qed

subsection \<open>Starting\<close>

text \<open>
  Claim C3. For a positive interval and any prior state of the timer that the controller
  can be in (no timer and no handle, or the one timer the handle names),
  \<open>startLiveUpdates\<close> leaves exactly one scheduled timer, a new one with the configured
  interval as its delay, held by the handle, and performs exactly one tick within the
  call.
\<close>

theorem start_one_timer_one_tick:
  assumes "lifecycle_inv s" and "updateInterval s = Some ms" and "0 < ms"
  shows "timers (startLiveUpdates env s) = [(Suc (timerCount s), Some ms)]
       \<and> updateTimer (startLiveUpdates env s) = Some (Suc (timerCount s))
       \<and> ticks (startLiveUpdates env s) = Suc (ticks s)"
proof -
  have "ticks (startLiveUpdates env s) = Suc (ticks s)"
    by (simp add: startLiveUpdates_def Let_def ticks_fetchRealTimeData)
      (simp add: ticks_def setInterval_def clearInterval_def split: option.splits)
  then show ?thesis
    using assms by (simp add: start_timers)
qed

theorem start_one_timer_one_tick_witness:
  "lifecycle_inv (new_RealTimeDashboard offline empty_page)
   \<and> updateInterval (new_RealTimeDashboard offline empty_page) = Some 30000
   \<and> (0::int) < 30000
   \<and> timers (startLiveUpdates offline (new_RealTimeDashboard offline empty_page)) =
       [(2, Some 30000)]
   \<and> updateTimer (startLiveUpdates offline (new_RealTimeDashboard offline empty_page)) = Some 2
   \<and> ticks (startLiveUpdates offline (new_RealTimeDashboard offline empty_page)) =
       Suc (ticks (new_RealTimeDashboard offline empty_page))"
proof -
  have i: "lifecycle_inv (new_RealTimeDashboard offline empty_page)"
    unfolding empty_page_def by (rule lifecycle_inv_construct)
  have u: "updateInterval (new_RealTimeDashboard offline empty_page) = Some 30000"
    unfolding empty_page_def by (simp add: construct_fields)
  have c: "timerCount (new_RealTimeDashboard offline empty_page) = 1"
    unfolding empty_page_def by (simp add: construct_fields)
  show ?thesis
    using i u start_one_timer_one_tick [OF i u, of offline] by (simp add: c)
qed

subsection \<open>Stopping\<close>

text \<open>
  Claim C4. \<open>stopLiveUpdates\<close> is idempotent: a second call right after the first
  changes nothing. After it, in every state the controller can be in, the handle is
  not set and no timer is scheduled.
\<close>

theorem stop_idempotent:
  "stopLiveUpdates (stopLiveUpdates s) = stopLiveUpdates s
   \<and> (lifecycle_inv s \<longrightarrow>
        updateTimer (stopLiveUpdates s) = None \<and> timers (stopLiveUpdates s) = [])"
proof -
  have "stopLiveUpdates (stopLiveUpdates s) = stopLiveUpdates s"
    by (simp add: stopLiveUpdates_def split: option.splits)
  then show ?thesis by (simp add: stop_timers)
qed

theorem stop_idempotent_witness:
  "lifecycle_inv (new_RealTimeDashboard offline empty_page)
   \<and> timers (new_RealTimeDashboard offline empty_page) = [(1, Some 30000)]
   \<and> stopLiveUpdates (stopLiveUpdates (new_RealTimeDashboard offline empty_page)) =
       stopLiveUpdates (new_RealTimeDashboard offline empty_page)
   \<and> updateTimer (stopLiveUpdates (new_RealTimeDashboard offline empty_page)) = None
   \<and> timers (stopLiveUpdates (new_RealTimeDashboard offline empty_page)) = []"
proof -
  have i: "lifecycle_inv (new_RealTimeDashboard offline empty_page)"
    unfolding empty_page_def by (rule lifecycle_inv_construct)
  have t: "timers (new_RealTimeDashboard offline empty_page) = [(1, Some 30000)]"
    unfolding empty_page_def by (simp add: construct_fields)
  show ?thesis
    using i t stop_idempotent [of "new_RealTimeDashboard offline empty_page"] by blast
qed

subsection \<open>The trend chart\<close>

text \<open>
  Claim C5. A trend series of at most 10 points (a label and a value each) has at most
  10 points after \<open>updateCarbonTrendChart\<close>. On a series of exactly 10 points the call
  drops the oldest point and appends the new one, the order of the others unchanged; on
  a shorter series it only appends. (Every reachable state has such a series, by
  \<open>reachable_trend_bounded\<close>.)
\<close>

theorem trend_window:
  assumes "length (labels c) \<le> 10" and "length (data c) = length (labels c)"
  shows "length (labels (updateCarbonTrendChart l r c)) \<le> 10
       \<and> length (data (updateCarbonTrendChart l r c)) =
           length (labels (updateCarbonTrendChart l r c))
       \<and> (if length (labels c) = 10
          then labels (updateCarbonTrendChart l r c) = tl (labels c) @ [l]
             \<and> data (updateCarbonTrendChart l r c) = tl (data c) @ [r * 100 + 50]
          else labels (updateCarbonTrendChart l r c) = labels c @ [l]
             \<and> data (updateCarbonTrendChart l r c) = data c @ [r * 100 + 50])"
proof (cases "length (labels c) = 10")
  case True
  with assms have "labels c \<noteq> []" "data c \<noteq> []" by auto
  with True assms show ?thesis
    by (simp add: updateCarbonTrendChart_def Let_def)
next
  case False
  with assms show ?thesis
    by (simp add: updateCarbonTrendChart_def Let_def)
qed

theorem trend_window_witness:
  "length (labels full_trend) \<le> 10
   \<and> length (data full_trend) = length (labels full_trend)
   \<and> length (labels (updateCarbonTrendChart ''t10'' (1 / 2) full_trend)) \<le> 10
   \<and> labels (updateCarbonTrendChart ''t10'' (1 / 2) full_trend) =
       [''t1'', ''t2'', ''t3'', ''t4'', ''t5'', ''t6'', ''t7'', ''t8'', ''t9'', ''t10'']
   \<and> data (updateCarbonTrendChart ''t10'' (1 / 2) full_trend) =
       [52, 53, 54, 55, 56, 57, 58, 59, 60, 100]"
proof -
  have a: "length (labels full_trend) \<le> 10"
    and b: "length (data full_trend) = length (labels full_trend)"
    by (simp_all add: full_trend_def)
  show ?thesis
    using a b trend_window [OF a b, of "''t10''" "1 / 2"] by (simp add: full_trend_def)
qed

subsection \<open>Vehicle statistics\<close>

text \<open>
  Claim C6. On a page that has the four counters, \<open>updateVehicleStats\<close> applied to the
  vehicles In Transit, Available, In Transit starts four counter animations with the
  targets 3 (total), 2 (active), 1 (idle) and 67 with the suffix \<open>%\<close> (efficiency,
  the rounding of 2 / 3 * 100), and a frame at least 1000 ms later leaves the counters
  showing 3, 2, 1 and 67%.
\<close>

theorem vehicle_stats_scenario:
  assumes "elements s ''totalVehicles'' = Some x1" and "elements s ''activeVehicles'' = Some x2"
    and "elements s ''idleVehicles'' = Some x3" and "elements s ''fleetEfficiency'' = Some x4"
    and "now + 1000 \<le> t"
  shows "map (\<lambda>a. (anim_element a, targetValue a, anim_suffix a))
           (drop (length (rafQueue s)) (rafQueue (updateVehicleStats now scenario_vehicles s))) =
         [(''totalVehicles'', Some 3, []), (''activeVehicles'', Some 2, []),
          (''idleVehicles'', Some 1, []), (''fleetEfficiency'', Some 67, ''%'')]
       \<and> elements (animationFrame t (updateVehicleStats now scenario_vehicles s)) ''totalVehicles'' = Some ''3''
       \<and> elements (animationFrame t (updateVehicleStats now scenario_vehicles s)) ''activeVehicles'' = Some ''2''
       \<and> elements (animationFrame t (updateVehicleStats now scenario_vehicles s)) ''idleVehicles'' = Some ''1''
       \<and> elements (animationFrame t (updateVehicleStats now scenario_vehicles s)) ''fleetEfficiency'' = Some ''67%''"
proof -
  note q = vehicle_stats_queue [OF assms(1-4), of now scenario_vehicles]
  have e: "elements (animationFrame t (updateVehicleStats now scenario_vehicles s)) =
     (elements (foldl (\<lambda>st a. animate t a st) ((updateVehicleStats now scenario_vehicles s)\<lparr>rafQueue := []\<rparr>) (rafQueue s)))
       (''totalVehicles'' \<mapsto> ''3'', ''activeVehicles'' \<mapsto> ''2'', ''idleVehicles'' \<mapsto> ''1'',
        ''fleetEfficiency'' \<mapsto> ''67%'')"
    using assms(5)
    by (simp add: elements_frame_tail [OF q] animate_done number_texts scenario_counts)
  show ?thesis
    by (simp add: e) (simp add: q scenario_counts)
qed

theorem vehicle_stats_scenario_witness:
  "elements sample_page ''totalVehicles'' = Some ''0''
   \<and> elements sample_page ''activeVehicles'' = Some ''0''
   \<and> elements sample_page ''idleVehicles'' = Some ''0''
   \<and> elements sample_page ''fleetEfficiency'' = Some ''0%''
   \<and> (0::real) + 1000 \<le> 1000
   \<and> elements (animationFrame 1000 (updateVehicleStats 0 scenario_vehicles sample_page))
        ''totalVehicles'' = Some ''3''
   \<and> elements (animationFrame 1000 (updateVehicleStats 0 scenario_vehicles sample_page))
        ''activeVehicles'' = Some ''2''
   \<and> elements (animationFrame 1000 (updateVehicleStats 0 scenario_vehicles sample_page))
        ''idleVehicles'' = Some ''1''
   \<and> elements (animationFrame 1000 (updateVehicleStats 0 scenario_vehicles sample_page))
        ''fleetEfficiency'' = Some ''67%''"
proof -
  have t: "(0::real) + 1000 \<le> 1000" by simp
  show ?thesis
    using t vehicle_stats_scenario [OF sample_page_elements(1-4) t]
    by (simp add: sample_page_elements)
qed

text \<open>
  Claim C10. For the empty vehicle list the quotient is not computed: the test
  \<open>totalVehicles > 0\<close> fails and the efficiency is the number 0, where the unguarded
  quotient \<open>0 / 0\<close> would be \<open>NaN\<close>. On a page that has the four counters the targets
  are 0, 0, 0 and 0 with the suffix \<open>%\<close>, and a frame at least 1000 ms later leaves the
  counters showing 0, 0, 0 and 0%.
\<close>

theorem vehicle_stats_empty:
  assumes "elements s ''totalVehicles'' = Some x1" and "elements s ''activeVehicles'' = Some x2"
    and "elements s ''idleVehicles'' = Some x3" and "elements s ''fleetEfficiency'' = Some x4"
    and "now + 1000 \<le> t"
  shows "map (\<lambda>a. (anim_element a, targetValue a, anim_suffix a))
           (drop (length (rafQueue s)) (rafQueue (updateVehicleStats now [] s))) =
         [(''totalVehicles'', Some 0, []), (''activeVehicles'', Some 0, []),
          (''idleVehicles'', Some 0, []), (''fleetEfficiency'', Some 0, ''%'')]
       \<and> elements (animationFrame t (updateVehicleStats now [] s)) ''totalVehicles'' = Some ''0''
       \<and> elements (animationFrame t (updateVehicleStats now [] s)) ''activeVehicles'' = Some ''0''
       \<and> elements (animationFrame t (updateVehicleStats now [] s)) ''idleVehicles'' = Some ''0''
       \<and> elements (animationFrame t (updateVehicleStats now [] s)) ''fleetEfficiency'' = Some ''0%''
       \<and> rounded_percentage 0 0 = None"
proof -
  note q = vehicle_stats_queue [OF assms(1-4), of now "[]"]
  have e: "elements (animationFrame t (updateVehicleStats now [] s)) =
     (elements (foldl (\<lambda>st a. animate t a st) ((updateVehicleStats now [] s)\<lparr>rafQueue := []\<rparr>) (rafQueue s)))
       (''totalVehicles'' \<mapsto> ''0'', ''activeVehicles'' \<mapsto> ''0'', ''idleVehicles'' \<mapsto> ''0'',
        ''fleetEfficiency'' \<mapsto> ''0%'')"
    using assms(5) by (simp add: elements_frame_tail [OF q] animate_done number_texts)
  show ?thesis
    by (simp add: e rounded_percentage_def) (simp add: q)
qed

theorem vehicle_stats_empty_witness:
  "elements sample_page ''totalVehicles'' = Some ''0''
   \<and> elements sample_page ''activeVehicles'' = Some ''0''
   \<and> elements sample_page ''idleVehicles'' = Some ''0''
   \<and> elements sample_page ''fleetEfficiency'' = Some ''0%''
   \<and> (0::real) + 1000 \<le> 1000
   \<and> map (\<lambda>a. (anim_element a, targetValue a, anim_suffix a))
        (rafQueue (updateVehicleStats 0 [] sample_page)) =
       [(''totalVehicles'', Some 0, []), (''activeVehicles'', Some 0, []),
        (''idleVehicles'', Some 0, []), (''fleetEfficiency'', Some 0, ''%'')]
   \<and> elements (animationFrame 1000 (updateVehicleStats 0 [] sample_page))
        ''fleetEfficiency'' = Some ''0%''"
proof -
  have t: "(0::real) + 1000 \<le> 1000" by simp
  show ?thesis
    using t vehicle_stats_empty [OF sample_page_elements(1-4) t]
    by (simp add: sample_page_elements)
qed

subsection \<open>Maintenance alerts\<close>

text \<open>
  Claim C7. On a page that has the alerts container, for every maintenance payload whose
  alerts list has exactly two alerts of urgency Critical, \<open>updateMaintenanceAlerts\<close>
  writes the summary with the critical count 2 into the container and creates exactly
  two toasts of severity \<open>Error\<close>, one for each critical alert, in the order of the
  list.
\<close>

theorem two_critical_alerts:
  assumes "elements s ''maintenanceAlerts'' = Some x"
    and "alerts m = Some als"
    and "length (filter (\<lambda>a. urgency a = ''Critical'') als) = 2"
  shows "regions (updateMaintenanceAlerts m s) ''maintenanceAlerts'' =
           Some (AlertsSummary 2 (length (filter (\<lambda>a. urgency a = ''Warning'') als)))
       \<and> toasts (updateMaintenanceAlerts m s) =
           toasts s @ map (\<lambda>a. \<lparr>toast_message = ''Critical: '' @ message a,
                                  toast_type = Error, toast_duration = 10000\<rparr>)
                        (filter (\<lambda>a. urgency a = ''Critical'') als)
       \<and> length (error_toasts (updateMaintenanceAlerts m s)) = length (error_toasts s) + 2"
proof -
  let ?crit = "filter (\<lambda>a. urgency a = ''Critical'') als"
  let ?s1 = "setRegion ''maintenanceAlerts''
               (AlertsSummary 2 (length (filter (\<lambda>a. urgency a = ''Warning'') als)))
               (enter UpdateMaintenanceAlerts s)"
  have eq: "updateMaintenanceAlerts m s =
              foldl (\<lambda>st a. showNotification (''Critical: '' @ message a) Error 10000 st) ?s1 ?crit"
    using assms by (simp add: updateMaintenanceAlerts_def Let_def enter_def)
  have r: "regions (updateMaintenanceAlerts m s) ''maintenanceAlerts'' =
           Some (AlertsSummary 2 (length (filter (\<lambda>a. urgency a = ''Warning'') als)))"
    by (simp add: eq notify_each_regions setRegion_def)
  have t: "toasts (updateMaintenanceAlerts m s) =
           toasts s @ map (\<lambda>a. \<lparr>toast_message = ''Critical: '' @ message a,
                                  toast_type = Error, toast_duration = 10000\<rparr>) ?crit"
    by (simp add: eq notify_each_toasts setRegion_def enter_def)
  have "length (error_toasts (updateMaintenanceAlerts m s)) = length (error_toasts s) + length ?crit"
    by (simp add: error_toasts_def t filter_map o_def)
  with assms(3) r t show ?thesis by simp
qed

theorem two_critical_alerts_witness:
  "elements sample_page ''maintenanceAlerts'' = Some []
   \<and> regions (updateMaintenanceAlerts sample_maintenance sample_page) ''maintenanceAlerts'' =
       Some (AlertsSummary 2 1)
   \<and> toasts (updateMaintenanceAlerts sample_maintenance sample_page) =
       [\<lparr>toast_message = ''Critical: Brake wear'', toast_type = Error, toast_duration = 10000\<rparr>,
        \<lparr>toast_message = ''Critical: Engine fault'', toast_type = Error, toast_duration = 10000\<rparr>]
   \<and> length (error_toasts (updateMaintenanceAlerts sample_maintenance sample_page)) = 2"
proof -
  let ?als = "[\<lparr>urgency = ''Critical'', message = ''Brake wear''\<rparr>,
               \<lparr>urgency = ''Warning'', message = ''Oil change due''\<rparr>,
               \<lparr>urgency = ''Critical'', message = ''Engine fault''\<rparr>]"
  have a: "alerts sample_maintenance = Some ?als"
    by (simp add: sample_maintenance_def)
  have c: "length (filter (\<lambda>a. urgency a = ''Critical'') ?als) = 2"
    by simp
  have e: "error_toasts sample_page = []"
    by (simp add: error_toasts_def sample_page_elements)
  show ?thesis
    using c two_critical_alerts [OF sample_page_elements(5) a c]
    by (simp add: a e sample_page_elements)
qed

subsection \<open>Changing the interval\<close>

text \<open>
  Claim C8. The handler of the interval selector stores the selected number of seconds
  times 1000 as the interval. In live mode it then stops the timer and starts it again:
  exactly one timer is scheduled afterwards, a new one with the new interval as its
  delay, and one tick is performed. When not in live mode it changes nothing but the
  stored interval: no timer is started and no tick is performed.
\<close>

theorem interval_change_restarts_when_live:
  assumes "lifecycle_inv s"
  shows "updateInterval (intervalChanged env v s) = map_option (\<lambda>n. n * 1000) (parseInt v)
       \<and> (if isLiveMode s
          then intervalChanged env v s =
                 startLiveUpdates env
                   (stopLiveUpdates (s\<lparr>updateInterval := map_option (\<lambda>n. n * 1000) (parseInt v)\<rparr>))
             \<and> timers (intervalChanged env v s) =
                 [(Suc (timerCount s), map_option (\<lambda>n. n * 1000) (parseInt v))]
             \<and> updateTimer (intervalChanged env v s) = Some (Suc (timerCount s))
             \<and> ticks (intervalChanged env v s) = Suc (ticks s)
          else intervalChanged env v s =
                 s\<lparr>updateInterval := map_option (\<lambda>n. n * 1000) (parseInt v)\<rparr>
             \<and> timers (intervalChanged env v s) = timers s
             \<and> updateTimer (intervalChanged env v s) = updateTimer s
             \<and> ticks (intervalChanged env v s) = ticks s)"
proof (cases "isLiveMode s")
  case True
  let ?d = "map_option (\<lambda>n. n * 1000) (parseInt v)"
  let ?s1 = "stopLiveUpdates (s\<lparr>updateInterval := ?d\<rparr>)"
  have inv1: "lifecycle_inv ?s1"
    using assms by (simp add: lifecycle_inv_stop)
  have live1: "isLiveMode ?s1"
    using True by (simp add: stop_other_fields)
  have eq: "intervalChanged env v s = startLiveUpdates env ?s1"
    using True live1 by (simp add: intervalChanged_def restartLiveUpdates_def Let_def)
  have t: "ticks (startLiveUpdates env ?s1) = Suc (ticks ?s1)"
    by (simp add: startLiveUpdates_def Let_def ticks_fetchRealTimeData)
      (simp add: ticks_def setInterval_def clearInterval_def split: option.splits)
  have t1: "ticks ?s1 = ticks s"
    by (simp add: ticks_def stop_other_fields)
  show ?thesis
    using True t t1 by (simp add: eq start_timers [OF inv1] stop_other_fields)
next
  case False
  then show ?thesis
    by (simp add: intervalChanged_def ticks_def)
qed

theorem interval_change_restarts_when_live_witness:
  "lifecycle_inv live_dashboard
   \<and> isLiveMode live_dashboard
   \<and> updateInterval (intervalChanged offline ''5'' live_dashboard) = Some 5000
   \<and> timers (intervalChanged offline ''5'' live_dashboard) =
       [(Suc (timerCount live_dashboard), Some 5000)]
   \<and> ticks (intervalChanged offline ''5'' live_dashboard) = Suc (ticks live_dashboard)"
proof -
  have l: "isLiveMode live_dashboard"
    by (simp add: live_dashboard_def isLiveMode_toggle)
  have p: "parseInt ''5'' = Some 5"
    by code_simp
  have m: "map_option (\<lambda>n. n * 1000) (parseInt ''5'') = Some (5000::int)"
    by (simp add: p)
  note w = interval_change_restarts_when_live
    [OF lifecycle_inv_live_dashboard, of offline "''5''", unfolded m if_P [OF l]]
  show ?thesis
    using w l lifecycle_inv_live_dashboard by blast
qed

subsection \<open>The counter animation\<close>




end
